theory Spec2Isabelle
  imports Main "HOL-Library.Sublist"
begin

section \<open>JavaScript values, strings and plain objects\<close>

text \<open>
  The editor facade of \<^verbatim>\<open>src/scribe.js\<close> is embedded shallowly. JavaScript strings are
  modelled as \<^typ>\<open>string\<close>; only literal ASCII patterns are matched by the source.
  A value an option can hold is a \<^verbatim>\<open>jsval\<close>; \<^verbatim>\<open>undefined\<close> is never stored: a property
  that reads as \<^verbatim>\<open>undefined\<close> is a key the map does not have. Numbers are restricted to
  the integers, objects are opaque references.
\<close>

datatype jsval = JNull | JBool bool | JNum int | JStr string | JObj nat

fun truthy :: "jsval \<Rightarrow> bool" where
  "truthy JNull = False"
| "truthy (JBool b) = b"
| "truthy (JNum n) = (n \<noteq> 0)"
| "truthy (JStr s) = (s \<noteq> [])"
| "truthy (JObj r) = True"

text \<open>
  \<^verbatim>\<open>s.replace(/pat/g, '')\<close> for a non-empty literal pattern: matches are found left to
  right, each match is dropped and the scan goes on behind it; what was already copied
  is not scanned again. The source never uses an empty pattern, which is left alone here.
\<close>

fun remove_all :: "string \<Rightarrow> string \<Rightarrow> string" where
  "remove_all pat [] = []"
| "remove_all pat (c # cs) =
     (if pat \<noteq> [] \<and> prefix pat (c # cs)
      then remove_all pat (drop (length pat) (c # cs))
      else c # remove_all pat cs)"

text \<open>
  \<^verbatim>\<open>s.replace(/pat$/, '')\<close> for a literal pattern: without the multiline flag \<^verbatim>\<open>$\<close> matches
  at the end of the input only, so at most one occurrence, the one that ends the
  string, is removed.
\<close>

definition remove_at_end :: "string \<Rightarrow> string \<Rightarrow> string" where
  "remove_at_end pat s =
     (if length pat \<le> length s \<and> drop (length s - length pat) s = pat
      then take (length s - length pat) s
      else s)"

text \<open>The opening tag of a selection marker, as the source spells it.\<close>

definition marker_open :: string where
  \<open>marker_open = ''<em class="scribe-marker">''\<close>

text \<open>
  \<^verbatim>\<open>this.commands = {}\<close> and \<^verbatim>\<open>this.commandPatches = {}\<close> are plain objects: reading
  \<^verbatim>\<open>obj[name]\<close> finds an own property first and then follows the prototype chain to
  \<^verbatim>\<open>Object.prototype\<close>, whose members (functions, and the \<^verbatim>\<open>__proto__\<close> accessor) are all
  truthy. A name found nowhere reads as \<^verbatim>\<open>undefined\<close>.
\<close>

definition object_prototype_members :: "string list" where
  "object_prototype_members =
     [''constructor'', ''toString'', ''toLocaleString'', ''valueOf'', ''hasOwnProperty'',
      ''isPrototypeOf'', ''propertyIsEnumerable'', ''__proto__'', ''__defineGetter__'',
      ''__defineSetter__'', ''__lookupGetter__'', ''__lookupSetter__'']"

text \<open>
  What \<^verbatim>\<open>getCommand\<close> can return: an object a plugin stored in one of the two registries,
  a member inherited from \<^verbatim>\<open>Object.prototype\<close>, or a fresh \<^verbatim>\<open>new this.api.Command(name)\<close>.

  Modelled from the spec: \<^verbatim>\<open>api.Command\<close> is not part of the sources at hand; the
  constructor is taken to build, without failing, "a default pass-through command
  wrapping the native mutation primitive" for the name it is given (\<open>Native name\<close>).
\<close>

datatype 'c command = Registered 'c | Inherited string | Native string

definition get_property :: "(string \<rightharpoonup> 'c) \<Rightarrow> string \<Rightarrow> 'c command option" where
  "get_property obj name =
     (case obj name of
        Some c \<Rightarrow> Some (Registered c)
      | None \<Rightarrow> if name \<in> set object_prototype_members then Some (Inherited name) else None)"

section \<open>Collaborators of the facade\<close>

subsection \<open>Formatter\<close>

record formatter =
  formatters :: "(string \<Rightarrow> string) list"

definition Formatter :: formatter where
  "Formatter = \<lparr>formatters = []\<rparr>"

text \<open>\<^verbatim>\<open>Formatter.prototype.format\<close>: a left fold (\<^verbatim>\<open>reduce\<close>) starting from the input.\<close>

definition format :: "formatter \<Rightarrow> string \<Rightarrow> string" where
  "format fm html = foldl (\<lambda>formattedData formatter. formatter formattedData) html (formatters fm)"

text \<open>
  The contract in the spec's words, for comparison: the first stage receives the raw
  input, each later stage the output of the stage before it.
\<close>

fun apply_stages :: "(string \<Rightarrow> string) list \<Rightarrow> string \<Rightarrow> string" where
  "apply_stages [] content = content"
| "apply_stages (stage # stages) content = apply_stages stages (stage content)"

subsection \<open>Undo manager\<close>

record undo_manager =
  stack :: "string list"
  position :: int

text \<open>
  \<^verbatim>\<open>this.undoManager.stack[this.undoManager.position]\<close>: an index outside the array reads
  as \<^verbatim>\<open>undefined\<close> (\<open>None\<close>).
\<close>

definition stack_at :: "undo_manager \<Rightarrow> string option" where
  "stack_at um =
     (if 0 \<le> position um \<and> nat (position um) < length (stack um)
      then Some (stack um ! nat (position um))
      else None)"

text \<open>
  Modelled from the spec: \<^verbatim>\<open>undo-manager.js\<close> is not part of the sources at hand. The
  spec has \<^verbatim>\<open>push\<close> discard every entry after \<open>position\<close>, append the snapshot and leave
  \<open>position\<close> pointing at it. The comparison that decides whether to push is made by
  the caller (\<^verbatim>\<open>pushHistory\<close> below), as the spec's push-gating policy says. The
  history starts empty; the spec gives no position for the empty history, and the
  constructor below takes \<open>- 1\<close>, a position without an entry like any other.
\<close>

definition push :: "string \<Rightarrow> undo_manager \<Rightarrow> undo_manager" where
  "push item um =
     (let kept = take (nat (position um + 1)) (stack um)
      in \<lparr>stack = kept @ [item], position = int (length kept)\<rparr>)"

subsection \<open>Selection\<close>

text \<open>
  The object \<^verbatim>\<open>new this.api.Selection()\<close> yields. \<^verbatim>\<open>api.js\<close> is not part of the sources at
  hand, so the object is a parameter of the operations that build one: its
  \<^verbatim>\<open>rangeCount\<close> (0 stands for any falsy value) and what each of its methods makes of the
  editor element's \<^verbatim>\<open>innerHTML\<close>.
\<close>

record selection =
  rangeCount :: nat
  placeMarkers :: "string \<Rightarrow> string"
  removeMarkers :: "string \<Rightarrow> string"
  selectMarkers :: "string \<Rightarrow> string"

section \<open>The editor facade\<close>

text \<open>
  The effects of the facade on its collaborators are kept in a trace, oldest first, so
  that their number and order can be stated.
\<close>

datatype effect =
    InnerHTMLSet string
  | MarkersPlaced
  | MarkersRemoved
  | MarkersSelected
  | Pushed string
  | Triggered string

datatype error = TypeError

text \<open>
  The fields of a \<^verbatim>\<open>Scribe\<close> instance; \<open>el\<close> is the \<^verbatim>\<open>innerHTML\<close> of the editor element.
  \<^verbatim>\<open>api\<close> and \<^verbatim>\<open>transactionManager\<close> come from modules outside the sources at hand and are
  left out.
\<close>

record 'c scribe =
  el :: string
  commands :: "string \<rightharpoonup> 'c"
  options :: "string \<rightharpoonup> jsval"
  targetWindow :: jsval
  commandPatches :: "string \<rightharpoonup> 'c"
  plainTextFormatter :: formatter
  htmlFormatter :: formatter
  undoManager :: undo_manager
  trace :: "effect list"

text \<open>
  lodash's \<^verbatim>\<open>defaults(object, source)\<close>: every property of \<open>source\<close> that reads as
  \<^verbatim>\<open>undefined\<close> in \<open>object\<close> is copied over; everything \<open>object\<close> has stays.
\<close>

definition defaults :: "(string \<rightharpoonup> jsval) \<Rightarrow> (string \<rightharpoonup> jsval) \<Rightarrow> (string \<rightharpoonup> jsval)" where
  "defaults object source = (\<lambda>k. case object k of Some v \<Rightarrow> Some v | None \<Rightarrow> source k)"

text \<open>
  The constructor, up to the fields it initialises itself. The second argument is
  \<open>None\<close> when no options object is passed (\<^verbatim>\<open>undefined\<close>); \<open>window\<close> is the global
  window. \<^verbatim>\<open>options || {}\<close> guards the call of \<^verbatim>\<open>defaults\<close>, but the next statement reads
  \<^verbatim>\<open>options.targetWindow\<close> from the argument itself, which throws a \<^verbatim>\<open>TypeError\<close> when the
  argument is \<^verbatim>\<open>undefined\<close>. The rest of the constructor installs the core plugins and
  the event listeners, all from modules outside the sources at hand.
\<close>

definition Scribe :: "string \<Rightarrow> (string \<rightharpoonup> jsval) option \<Rightarrow> jsval \<Rightarrow> error + 'c scribe" where
  "Scribe el_html options_arg window =
     (let opts = defaults (case options_arg of None \<Rightarrow> Map.empty | Some given \<Rightarrow> given)
                   [''allowBlockElements'' \<mapsto> JBool True, ''debug'' \<mapsto> JBool False]
      in case options_arg of
           None \<Rightarrow> Inl TypeError
         | Some given \<Rightarrow>
             Inr \<lparr>el = el_html,
                  commands = Map.empty,
                  options = opts,
                  targetWindow =
                    (case given ''targetWindow'' of
                       None \<Rightarrow> window
                     | Some w \<Rightarrow> if truthy w then w else window),
                  commandPatches = Map.empty,
                  plainTextFormatter = Formatter,
                  htmlFormatter = Formatter,
                  undoManager = \<lparr>stack = [], position = - 1\<rparr>,
                  trace = []\<rparr>)"

definition use :: "('c scribe \<Rightarrow> 'c scribe) \<Rightarrow> 'c scribe \<Rightarrow> 'c scribe" where
  "use configurePlugin s = configurePlugin s"

definition setHTML :: "string \<Rightarrow> 'c scribe \<Rightarrow> 'c scribe" where
  "setHTML html s = s\<lparr>el := html, trace := trace s @ [InnerHTMLSet html]\<rparr>"

definition getHTML :: "'c scribe \<Rightarrow> string" where
  "getHTML s = el s"

definition getContent :: "'c scribe \<Rightarrow> string" where
  "getContent s = remove_at_end ''<br>'' (getHTML s)"

text \<open>\<^verbatim>\<open>trigger\<close> is inherited from the event emitter; the model records the emission.\<close>

definition trigger :: "string \<Rightarrow> 'c scribe \<Rightarrow> 'c scribe" where
  "trigger event s = s\<lparr>trace := trace s @ [Triggered event]\<rparr>"

text \<open>The calls on a selection object and on the undo manager, as state transformers.\<close>

definition call_placeMarkers :: "selection \<Rightarrow> 'c scribe \<Rightarrow> 'c scribe" where
  "call_placeMarkers sel s = s\<lparr>el := placeMarkers sel (el s), trace := trace s @ [MarkersPlaced]\<rparr>"

definition call_removeMarkers :: "selection \<Rightarrow> 'c scribe \<Rightarrow> 'c scribe" where
  "call_removeMarkers sel s = s\<lparr>el := removeMarkers sel (el s), trace := trace s @ [MarkersRemoved]\<rparr>"

definition call_selectMarkers :: "selection \<Rightarrow> 'c scribe \<Rightarrow> 'c scribe" where
  "call_selectMarkers sel s = s\<lparr>el := selectMarkers sel (el s), trace := trace s @ [MarkersSelected]\<rparr>"

definition call_push :: "string \<Rightarrow> 'c scribe \<Rightarrow> 'c scribe" where
  "call_push html s = s\<lparr>undoManager := push html (undoManager s), trace := trace s @ [Pushed html]\<rparr>"

text \<open>
  \<^verbatim>\<open>previousUndoItem && previousUndoItem.replace(...).replace(...)\<close>: \<^verbatim>\<open>undefined\<close> stays
  \<^verbatim>\<open>undefined\<close>; a string has every \<^verbatim>\<open><em class="scribe-marker">\<close> and then every \<^verbatim>\<open></em>\<close>
  removed.
\<close>

definition strip_entry :: "string \<Rightarrow> string" where
  "strip_entry item = remove_all ''</em>'' (remove_all marker_open item)"

text \<open>Truthiness of \<^verbatim>\<open>previousUndoItem\<close>: \<^verbatim>\<open>undefined\<close> and the empty string are falsy.\<close>

fun truthy_item :: "string option \<Rightarrow> bool" where
  "truthy_item None = False"
| "truthy_item (Some item) = (item \<noteq> [])"

definition pushHistory :: "selection \<Rightarrow> 'c scribe \<Rightarrow> bool \<times> 'c scribe" where
  "pushHistory sel s =
     (let previousUndoItem = stack_at (undoManager s);
          previousContent = map_option strip_entry previousUndoItem
      in if \<not> truthy_item previousUndoItem
            \<or> (truthy_item previousUndoItem \<and> Some (getContent s) \<noteq> previousContent)
         then
           (let s1 = (if rangeCount sel \<noteq> 0 then call_placeMarkers sel s else s);
                html = getHTML s1;
                s2 = (if rangeCount sel \<noteq> 0 then call_removeMarkers sel s1 else s1)
            in (True, call_push html s2))
         else (False, s))"

text \<open>
  The HTML that \<^verbatim>\<open>pushHistory\<close> reads for the history entry: the \<^verbatim>\<open>innerHTML\<close> while the
  markers are placed, or as it is when the selection has no range.
\<close>

definition snapshot_html :: "selection \<Rightarrow> 'c scribe \<Rightarrow> string" where
  "snapshot_html sel s = getHTML (if rangeCount sel \<noteq> 0 then call_placeMarkers sel s else s)"

definition getCommand :: "'c scribe \<Rightarrow> string \<Rightarrow> 'c command" where
  "getCommand s commandName =
     (case get_property (commands s) commandName of
        Some c \<Rightarrow> c
      | None \<Rightarrow>
          (case get_property (commandPatches s) commandName of
             Some c \<Rightarrow> c
           | None \<Rightarrow> Native commandName))"

definition restoreFromHistory :: "selection \<Rightarrow> string \<Rightarrow> 'c scribe \<Rightarrow> 'c scribe" where
  "restoreFromHistory sel historyItem s =
     trigger ''content-changed'' (call_selectMarkers sel (setHTML historyItem s))"

definition allowsBlockElements :: "'c scribe \<Rightarrow> jsval option" where
  "allowsBlockElements s = options s ''allowBlockElements''"

definition isDebugModeEnabled :: "'c scribe \<Rightarrow> jsval option" where
  "isDebugModeEnabled s = options s ''debug''"

section \<open>Marker tokens in the spec's words\<close>

text \<open>
  Content with its marker tokens ignored, as the spec puts it, for comparison with
  \<open>strip_entry\<close>: a marker token is the complete, empty marker element, and ignoring the
  tokens drops each of them.
\<close>

definition marker_token :: string where
  "marker_token = marker_open @ ''</em>''"


section \<open>Concrete instances\<close>

text \<open>
  Instances for evaluating the operations: a selection object of a window without
  ranges, one of a window whose caret stands at the very start of the content, and an
  editor as the constructor builds it from an empty options object, given its content
  and its history.
\<close>

definition no_selection :: selection where
  "no_selection =
     \<lparr>rangeCount = 0, placeMarkers = (\<lambda>html. html), removeMarkers = (\<lambda>html. html),
      selectMarkers = (\<lambda>html. html)\<rparr>"

definition caret_at_start :: selection where
  "caret_at_start =
     \<lparr>rangeCount = 1, placeMarkers = (\<lambda>html. marker_token @ html),
      removeMarkers = remove_all marker_token, selectMarkers = remove_all marker_token\<rparr>"

definition editor :: "string \<Rightarrow> string list \<Rightarrow> int \<Rightarrow> nat scribe" where
  "editor html entries pos =
     (projr (Scribe html (Some Map.empty) (JObj 0)))
       \<lparr>undoManager := \<lparr>stack = entries, position = pos\<rparr>\<rparr>"

section \<open>The formatting pipeline\<close>

lemma format_eq_apply_stages: "format fm html = apply_stages (formatters fm) html"
proof -
  have "foldl (\<lambda>formattedData formatter. formatter formattedData) x fs = apply_stages fs x" for fs x
    by (induction fs arbitrary: x) simp_all
  then show ?thesis by (simp add: format_def)
qed

lemma apply_stages_snoc:
  "apply_stages (stages @ [stage]) content = stage (apply_stages stages content)"
  by (induction stages arbitrary: content) simp_all

text \<open>
  C6. For every input string and every ordered list of stages, \<^verbatim>\<open>format\<close> applies the
  stages left to right: the first-registered stage receives the raw input, each later
  stage the output of the one before it, and the result for \<open>[f1, ..., fn]\<close> is
  \<open>fn (... (f1 input))\<close>. With no stage the input is returned as it is; a stage put in
  front is applied first, a stage appended is applied last.
\<close>

theorem format_left_to_right:
  "format fm html = apply_stages (formatters fm) html
   \<and> format \<lparr>formatters = []\<rparr> html = html
   \<and> format \<lparr>formatters = f # fs\<rparr> html = format \<lparr>formatters = fs\<rparr> (f html)
   \<and> format \<lparr>formatters = fs @ [f]\<rparr> html = f (format \<lparr>formatters = fs\<rparr> html)"
  by (simp add: format_eq_apply_stages apply_stages_snoc)

theorem format_left_to_right_witness:
  "format \<lparr>formatters = [\<lambda>content. content @ ''1'', \<lambda>content. content @ ''2'']\<rparr> ''x'' = ''x12''"
  using format_left_to_right
    [THEN conjunct1, of "\<lparr>formatters = [\<lambda>content. content @ ''1'', \<lambda>content. content @ ''2'']\<rparr>" "''x''"]
  by simp

section \<open>Command resolution\<close>

lemma not_prototype_member_bold: "''bold'' \<notin> set object_prototype_members"
  by (simp add: object_prototype_members_def)

text \<open>
  C1, as stated, has the patch command win over the plugin command. \<^verbatim>\<open>getCommand\<close> looks
  into \<^verbatim>\<open>this.commands\<close> first: after a plugin and then a patch registered a command
  under the name \<^verbatim>\<open>bold\<close>, the plugin's command is the one returned.
\<close>

theorem getCommand_plugin_shadows_patch:
  "getCommand
     (use (\<lambda>s. s\<lparr>commandPatches := (commandPatches s)(''bold'' \<mapsto> 2)\<rparr>)
        (use (\<lambda>s. s\<lparr>commands := (commands s)(''bold'' \<mapsto> 1)\<rparr>) (editor ''<p>a</p>'' [] (- 1))))
     ''bold'' = Registered 1
   \<and> getCommand
     (use (\<lambda>s. s\<lparr>commandPatches := (commandPatches s)(''bold'' \<mapsto> 2)\<rparr>)
        (use (\<lambda>s. s\<lparr>commands := (commands s)(''bold'' \<mapsto> 1)\<rparr>) (editor ''<p>a</p>'' [] (- 1))))
     ''bold'' \<noteq> Registered 2"
  by (simp add: getCommand_def get_property_def use_def editor_def Scribe_def)

text \<open>
  C1, amended. The precedence is plugin, then patch, then default, whatever the order
  of registration: a command registered in \<^verbatim>\<open>this.commands\<close> is returned whether or not a
  patch exists under the name; for a name that is not a member of \<^verbatim>\<open>Object.prototype\<close>,
  a patch is returned when no plugin command is registered, and the native default
  wrapper when neither is.
\<close>

theorem getCommand_precedence:
  "(commands s name = Some c \<longrightarrow> getCommand s name = Registered c)
   \<and> (name \<notin> set object_prototype_members \<and> commands s name = None
        \<and> commandPatches s name = Some p \<longrightarrow> getCommand s name = Registered p)
   \<and> (name \<notin> set object_prototype_members \<and> commands s name = None
        \<and> commandPatches s name = None \<longrightarrow> getCommand s name = Native name)"
  by (simp add: getCommand_def get_property_def)

theorem getCommand_precedence_witness:
  "getCommand
     ((editor ''<p>a</p>'' [] (- 1))\<lparr>commands := [''bold'' \<mapsto> 1], commandPatches := [''bold'' \<mapsto> 2]\<rparr>)
     ''bold'' = Registered 1
   \<and> getCommand ((editor ''<p>a</p>'' [] (- 1))\<lparr>commandPatches := [''bold'' \<mapsto> 2]\<rparr>) ''bold''
       = Registered 2
   \<and> getCommand (editor ''<p>a</p>'' [] (- 1)) ''bold'' = Native ''bold''"
  using
    getCommand_precedence
      [of "(editor ''<p>a</p>'' [] (- 1))\<lparr>commands := [''bold'' \<mapsto> 1], commandPatches := [''bold'' \<mapsto> 2]\<rparr>"
          "''bold''" 1 2]
    getCommand_precedence
      [of "(editor ''<p>a</p>'' [] (- 1))\<lparr>commandPatches := [''bold'' \<mapsto> 2]\<rparr>" "''bold''" 1 2]
    getCommand_precedence [of "editor ''<p>a</p>'' [] (- 1)" "''bold''" 1 2]
    not_prototype_member_bold
  by (simp add: editor_def Scribe_def)

text \<open>
  C4. Resolution never raises an error, but a name registered at no tier does not
  always yield the default command: \<^verbatim>\<open>this.commands\<close> is a plain object, so the name
  \<^verbatim>\<open>constructor\<close> finds the member of that name on \<^verbatim>\<open>Object.prototype\<close>, and that
  built-in function is what \<^verbatim>\<open>getCommand\<close> returns.
\<close>

theorem getCommand_inherited_member:
  "commands (editor ''<p>a</p>'' [] (- 1)) ''constructor'' = None
   \<and> commandPatches (editor ''<p>a</p>'' [] (- 1)) ''constructor'' = None
   \<and> getCommand (editor ''<p>a</p>'' [] (- 1)) ''constructor'' = Inherited ''constructor''
   \<and> getCommand (editor ''<p>a</p>'' [] (- 1)) ''constructor'' \<noteq> Native ''constructor''"
  by (simp add: getCommand_def get_property_def editor_def Scribe_def object_prototype_members_def)

section \<open>Construction and configuration\<close>

text \<open>
  C5, as stated, has construction raise an error for an options object with an
  unrecognized option. The constructor checks nothing: an option named \<^verbatim>\<open>colour\<close> is
  accepted and kept.
\<close>

theorem Scribe_accepts_unrecognized_option:
  "\<not> isl (Scribe ''<p>a</p>'' (Some [''colour'' \<mapsto> JStr ''red'']) (JObj 0) :: error + nat scribe)
   \<and> options
        (projr (Scribe ''<p>a</p>'' (Some [''colour'' \<mapsto> JStr ''red'']) (JObj 0) :: error + nat scribe))
        ''colour'' = Some (JStr ''red'')"
  by (simp add: Scribe_def defaults_def)

text \<open>
  C5, amended. The constructor validates no option: for every options object, whatever
  the names of its options, the initialisation of the fields raises no error, the
  resulting configuration is the object with the two defaults filled in, and every
  option supplied is kept in it.
\<close>

theorem Scribe_keeps_every_option:
  "\<exists>s. (Scribe html (Some given) window :: error + 'c scribe) = Inr s
       \<and> options s = defaults given [''allowBlockElements'' \<mapsto> JBool True, ''debug'' \<mapsto> JBool False]
       \<and> (\<forall>k v. given k = Some v \<longrightarrow> options s k = Some v)"
  by (simp add: Scribe_def defaults_def)

theorem Scribe_keeps_every_option_witness:
  "\<exists>s. (Scribe ''<p>a</p>'' (Some [''colour'' \<mapsto> JStr ''red'']) (JObj 0) :: error + nat scribe) = Inr s
       \<and> options s ''colour'' = Some (JStr ''red'')
       \<and> options s ''debug'' = Some (JBool False)"
  using Scribe_keeps_every_option
    [of "''<p>a</p>''" "[''colour'' \<mapsto> JStr ''red'']" "JObj 0", where ?'c = nat]
  by (auto simp add: defaults_def)

text \<open>
  With an options object, the configuration has the defaults for what the object
  leaves out and the supplied value for what it holds, and the two accessors report it.
\<close>

lemma Scribe_fills_defaults:
  "\<exists>s. (Scribe html (Some given) window :: error + 'c scribe) = Inr s
       \<and> allowsBlockElements s
           = (case given ''allowBlockElements'' of None \<Rightarrow> Some (JBool True) | Some v \<Rightarrow> Some v)
       \<and> isDebugModeEnabled s
           = (case given ''debug'' of None \<Rightarrow> Some (JBool False) | Some v \<Rightarrow> Some v)"
  by (simp add: Scribe_def defaults_def allowsBlockElements_def isDebugModeEnabled_def
      split: option.splits)

text \<open>
  C8. Construction with no options object at all does not produce a configuration:
  the defaults are computed from \<^verbatim>\<open>options || {}\<close>, but \<^verbatim>\<open>options.targetWindow\<close> is then
  read from the missing argument, and the constructor throws a \<^verbatim>\<open>TypeError\<close>.
\<close>

theorem Scribe_without_options_throws:
  "(Scribe html None window :: error + 'c scribe) = Inl TypeError"
  by (simp add: Scribe_def)

section \<open>Restoring a snapshot\<close>

text \<open>
  C7. For every snapshot, \<^verbatim>\<open>restoreFromHistory\<close> writes the snapshot as the content of the
  editor, then has the selection restored from the markers of that content, then emits
  \<^verbatim>\<open>content-changed\<close>, once: these three effects, in this order, are all it adds to the
  trace, the content ends as what selecting the markers makes of the snapshot, and the
  history is not touched.
\<close>

theorem restoreFromHistory_effects:
  "el (restoreFromHistory sel snapshot s) = selectMarkers sel snapshot
   \<and> trace (restoreFromHistory sel snapshot s)
       = trace s @ [InnerHTMLSet snapshot, MarkersSelected, Triggered ''content-changed'']
   \<and> length (filter (\<lambda>e. e = Triggered ''content-changed'') (trace (restoreFromHistory sel snapshot s)))
       = Suc (length (filter (\<lambda>e. e = Triggered ''content-changed'') (trace s)))
   \<and> undoManager (restoreFromHistory sel snapshot s) = undoManager s"
  by (simp add: restoreFromHistory_def trigger_def call_selectMarkers_def setHTML_def)

theorem restoreFromHistory_effects_witness:
  "el (restoreFromHistory caret_at_start (marker_token @ ''<p>a</p>'') (editor ''<p>b</p>'' [] (- 1)))
     = ''<p>a</p>''
   \<and> trace (restoreFromHistory caret_at_start (marker_token @ ''<p>a</p>'') (editor ''<p>b</p>'' [] (- 1)))
       = [InnerHTMLSet (marker_token @ ''<p>a</p>''), MarkersSelected, Triggered ''content-changed'']"
  using restoreFromHistory_effects
    [of caret_at_start "marker_token @ ''<p>a</p>''" "editor ''<p>b</p>'' [] (- 1)"]
  by (simp add: caret_at_start_def marker_token_def marker_open_def editor_def Scribe_def)

section \<open>Pushing to the history\<close>

lemma stack_at_push: "stack_at (push item um) = Some item"
  by (simp add: stack_at_def push_def Let_def nth_append)

lemma stack_push_push:
  "stack (push b (push a um)) = take (nat (position um + 1)) (stack um) @ [a, b]"
proof -
  define kept where "kept = take (nat (position um + 1)) (stack um)"
  have first: "push a um = \<lparr>stack = kept @ [a], position = int (length kept)\<rparr>"
    by (simp add: push_def kept_def)
  have "nat (int (length kept) + 1) = Suc (length kept)"
    by simp
  then have "take (nat (int (length kept) + 1)) (kept @ [a]) = kept @ [a]"
    by simp
  then have "stack (push b \<lparr>stack = kept @ [a], position = int (length kept)\<rparr>) = kept @ [a, b]"
    by (simp add: push_def)
  then show ?thesis
    by (simp add: first kept_def)
qed

lemma remove_at_end_append: "remove_at_end pat (h @ pat) = h"
  by (simp add: remove_at_end_def)

lemma remove_at_end_no_suffix: "\<not> suffix pat s \<Longrightarrow> remove_at_end pat s = s"
  by (auto simp add: remove_at_end_def suffix_def) (metis append_take_drop_id)

text \<open>
  The decision of \<^verbatim>\<open>pushHistory\<close>: it pushes when the current position holds no entry,
  when the entry there is the empty string, or when \<^verbatim>\<open>getContent()\<close> differs from the
  stripped entry.
\<close>

lemma pushHistory_decision:
  "fst (pushHistory sel s) =
     (case stack_at (undoManager s) of
        None \<Rightarrow> True
      | Some entry \<Rightarrow> entry = [] \<or> getContent s \<noteq> strip_entry entry)"
  by (auto simp add: pushHistory_def Let_def split: option.splits)


lemma pushHistory_pushed:
  assumes "fst (pushHistory sel s)"
  shows "undoManager (snd (pushHistory sel s)) = push (snapshot_html sel s) (undoManager s)"
    and "trace (snd (pushHistory sel s)) =
           trace s @ (if rangeCount sel \<noteq> 0 then [MarkersPlaced, MarkersRemoved] else [])
             @ [Pushed (snapshot_html sel s)]"
    and "el (snd (pushHistory sel s)) =
           (if rangeCount sel \<noteq> 0 then removeMarkers sel (placeMarkers sel (el s)) else el s)"
  using assms
  by (auto simp add: pushHistory_def Let_def snapshot_html_def call_push_def call_placeMarkers_def
      call_removeMarkers_def getHTML_def split: if_splits)

text \<open>
  C9. When the history holds no entry at the current position, as before the first
  push, \<^verbatim>\<open>pushHistory\<close> returns true and pushes, whatever the current content is, the
  empty string included: the HTML read for the snapshot is handed to the undo manager,
  which appends it behind the entries it keeps and makes it the entry at the current
  position.
\<close>

theorem pushHistory_without_entry:
  assumes "stack_at (undoManager s) = None"
  shows "fst (pushHistory sel s) = True
    \<and> last (trace (snd (pushHistory sel s))) = Pushed (snapshot_html sel s)
    \<and> stack (undoManager (snd (pushHistory sel s)))
        = take (nat (position (undoManager s) + 1)) (stack (undoManager s)) @ [snapshot_html sel s]
    \<and> stack_at (undoManager (snd (pushHistory sel s))) = Some (snapshot_html sel s)"
proof -
  have pushed: "fst (pushHistory sel s)"
    using assms by (simp add: pushHistory_decision)
  then have um: "undoManager (snd (pushHistory sel s)) = push (snapshot_html sel s) (undoManager s)"
    by (rule pushHistory_pushed(1))
  have "last (trace (snd (pushHistory sel s))) = Pushed (snapshot_html sel s)"
    using pushHistory_pushed(2) [OF pushed] by simp
  then show ?thesis
    using pushed um by (simp add: stack_at_push) (simp add: push_def Let_def)
qed

theorem pushHistory_without_entry_witness:
  "stack_at (undoManager (editor [] [] (- 1))) = None
   \<and> getContent (editor [] [] (- 1)) = []
   \<and> fst (pushHistory no_selection (editor [] [] (- 1))) = True
   \<and> stack (undoManager (snd (pushHistory no_selection (editor [] [] (- 1))))) = [[]]"
proof -
  have none: "stack_at (undoManager (editor [] [] (- 1))) = None"
    by (simp add: stack_at_def editor_def)
  show ?thesis
    using none pushHistory_without_entry [OF none, of no_selection]
    by (simp add: snapshot_html_def no_selection_def getHTML_def getContent_def remove_at_end_def
        editor_def Scribe_def)
qed

text \<open>
  C10. \<^verbatim>\<open>getContent()\<close> is \<^verbatim>\<open>getHTML()\<close> without one \<^verbatim>\<open><br>\<close> at its very end, and
  \<^verbatim>\<open>getHTML()\<close> itself when it does not end so. This stripped form is what the gating
  comparison of \<^verbatim>\<open>pushHistory\<close> takes as the current content, against the stripped entry;
  the entry that is stored when it pushes is the HTML as read, with the markers placed
  when the selection has a range.
\<close>

theorem getContent_and_gating:
  "(getHTML s = h @ ''<br>'' \<longrightarrow> getContent s = h)
   \<and> (\<not> suffix ''<br>'' (getHTML s) \<longrightarrow> getContent s = getHTML s)
   \<and> fst (pushHistory sel s) =
       (case stack_at (undoManager s) of
          None \<Rightarrow> True
        | Some entry \<Rightarrow> entry = [] \<or> getContent s \<noteq> strip_entry entry)
   \<and> (fst (pushHistory sel s) \<longrightarrow>
         stack_at (undoManager (snd (pushHistory sel s))) = Some (snapshot_html sel s)
         \<and> last (trace (snd (pushHistory sel s))) = Pushed (snapshot_html sel s))
   \<and> snapshot_html sel s = (if rangeCount sel \<noteq> 0 then placeMarkers sel (getHTML s) else getHTML s)"
proof -
  have a: "getHTML s = h @ ''<br>'' \<longrightarrow> getContent s = h"
    using remove_at_end_append [of "''<br>''" h] by (simp add: getContent_def)
  have b: "\<not> suffix ''<br>'' (getHTML s) \<longrightarrow> getContent s = getHTML s"
    by (simp add: getContent_def remove_at_end_no_suffix)
  have c: "fst (pushHistory sel s) \<longrightarrow>
         stack_at (undoManager (snd (pushHistory sel s))) = Some (snapshot_html sel s)
         \<and> last (trace (snd (pushHistory sel s))) = Pushed (snapshot_html sel s)"
    by (simp add: pushHistory_pushed stack_at_push)
  have d: "snapshot_html sel s = (if rangeCount sel \<noteq> 0 then placeMarkers sel (getHTML s) else getHTML s)"
    by (simp add: snapshot_html_def getHTML_def call_placeMarkers_def)
  show ?thesis
    using a b c d pushHistory_decision [of sel s] by blast
qed

theorem getContent_and_gating_witness:
  "getContent (editor ''a<br><br>'' [] (- 1)) = ''a<br>''
   \<and> getContent (editor ''<p>a</p>'' [] (- 1)) = ''<p>a</p>''
   \<and> fst (pushHistory no_selection (editor ''a<br>'' [''a''] 0)) = False
   \<and> fst (pushHistory no_selection (editor ''a<br>'' [''a<br>''] 0)) = True
   \<and> stack_at (undoManager (snd (pushHistory no_selection (editor ''a<br>'' [] (- 1))))) = Some ''a<br>''"
  using
    getContent_and_gating [of "editor ''a<br><br>'' [] (- 1)" "''a<br>''" no_selection]
    getContent_and_gating [of "editor ''<p>a</p>'' [] (- 1)" "[]" no_selection]
    getContent_and_gating [of "editor ''a<br>'' [''a''] 0" "''a''" no_selection]
    getContent_and_gating [of "editor ''a<br>'' [''a<br>''] 0" "''a''" no_selection]
    getContent_and_gating [of "editor ''a<br>'' [] (- 1)" "''a''" no_selection]
  by (simp add: editor_def Scribe_def getHTML_def no_selection_def stack_at_def strip_entry_def
      marker_open_def suffix_to_prefix)




text \<open>
  C3. Two calls of \<^verbatim>\<open>pushHistory\<close> in a row, with no change of content in between, can
  push twice. When the selection has no range, the first call pushes, and the content
  is empty or differs from what the stripping of an entry makes of it (it holds an
  \<^verbatim>\<open></em>\<close>, or it ends in \<^verbatim>\<open><br>\<close>), the second call returns true as well and the same
  HTML is in the history twice, while the content is what it was.
\<close>

theorem pushHistory_repeated:
  assumes "rangeCount sel = 0"
    and "fst (pushHistory sel s)"
    and "getHTML s = [] \<or> getContent s \<noteq> strip_entry (getHTML s)"
  shows "fst (pushHistory sel (snd (pushHistory sel s))) = True
    \<and> getHTML (snd (pushHistory sel s)) = getHTML s
    \<and> stack (undoManager (snd (pushHistory sel (snd (pushHistory sel s)))))
        = take (nat (position (undoManager s) + 1)) (stack (undoManager s)) @ [getHTML s, getHTML s]"
proof -
  let ?s1 = "snd (pushHistory sel s)"
  have snap: "snapshot_html sel s = getHTML s"
    using assms(1) by (simp add: snapshot_html_def)
  have el1: "getHTML ?s1 = getHTML s"
    using assms(1) pushHistory_pushed(3) [OF assms(2)] by (simp add: getHTML_def)
  have um1: "undoManager ?s1 = push (getHTML s) (undoManager s)"
    using pushHistory_pushed(1) [OF assms(2)] snap by simp
  have content1: "getContent ?s1 = getContent s"
    using el1 by (simp add: getContent_def)
  have again: "fst (pushHistory sel ?s1)"
    using assms(3) by (simp add: pushHistory_decision um1 stack_at_push content1)
  have snap1: "snapshot_html sel ?s1 = getHTML s"
    using assms(1) el1 by (simp add: snapshot_html_def)
  have um2: "undoManager (snd (pushHistory sel ?s1))
      = push (getHTML s) (push (getHTML s) (undoManager s))"
    using pushHistory_pushed(1) [OF again] snap1 um1 by simp
  show ?thesis
    using again el1 by (simp add: um2 stack_push_push)
qed

theorem pushHistory_repeated_witness:
  "rangeCount no_selection = 0
   \<and> fst (pushHistory no_selection (editor ''<p><em>a</em></p>'' [] (- 1))) = True
   \<and> getContent (editor ''<p><em>a</em></p>'' [] (- 1))
       \<noteq> strip_entry (getHTML (editor ''<p><em>a</em></p>'' [] (- 1)))
   \<and> fst (pushHistory no_selection
            (snd (pushHistory no_selection (editor ''<p><em>a</em></p>'' [] (- 1))))) = True
   \<and> stack (undoManager (snd (pushHistory no_selection
            (snd (pushHistory no_selection (editor ''<p><em>a</em></p>'' [] (- 1)))))))
       = [''<p><em>a</em></p>'', ''<p><em>a</em></p>'']"
proof -
  have sel: "rangeCount no_selection = 0"
    by (simp add: no_selection_def)
  have first: "fst (pushHistory no_selection (editor ''<p><em>a</em></p>'' [] (- 1)))"
    by (simp add: pushHistory_decision stack_at_def editor_def)
  have html: "getHTML (editor ''<p><em>a</em></p>'' [] (- 1)) = ''<p><em>a</em></p>''"
    by (simp add: getHTML_def editor_def Scribe_def)
  have differ: "getContent (editor ''<p><em>a</em></p>'' [] (- 1))
      \<noteq> strip_entry (getHTML (editor ''<p><em>a</em></p>'' [] (- 1)))"
    by (simp add: getContent_def html remove_at_end_def strip_entry_def marker_open_def)
  have differ': "getHTML (editor ''<p><em>a</em></p>'' [] (- 1)) = []
      \<or> getContent (editor ''<p><em>a</em></p>'' [] (- 1))
          \<noteq> strip_entry (getHTML (editor ''<p><em>a</em></p>'' [] (- 1)))"
    using differ by simp
  show ?thesis
    using sel first differ pushHistory_repeated [OF sel first differ']
    by (simp add: html) (simp add: editor_def)
qed

end
